theory Spec2Isabelle
  imports Complex_Main "HOL-Library.AList"
begin

section \<open>The Keycloak client (src/client.ts) as HOL functions\<close>

text \<open>
  The class \<open>KeycloakClient\<close> is embedded as a record of its fields together with one
  HOL function per method. A method takes the client and returns the client it leaves
  behind; a \<open>throw\<close> is a value of type \<open>outcome\<close>, returned next to the client as the
  throw left it. Results of the external collaborators (the token decoder, the clock,
  the network adapter, the callback storage, the random generators) are arguments.
  Lifecycle handlers (\<open>onAuthLogout\<close> and the others) are optional members: the record
  says which are registered and every invocation is appended to the field \<open>events\<close>.
  Handlers are taken to return normally and to leave the client alone. Diagnostic
  logging (\<open>logInfo\<close>, \<open>logWarn\<close>) is left out.
\<close>

subsection \<open>JavaScript numbers and strings\<close>

text \<open>
  A JavaScript number is a finite value, one of the two infinities, or NaN. Finite
  arithmetic is exact here (rounding and the sign of zero are not modelled).
\<close>

datatype jsnum = Fin real | PInf | NInf | NaN

fun js_neg :: "jsnum \<Rightarrow> jsnum" where
  "js_neg (Fin x) = Fin (- x)"
| "js_neg PInf = NInf"
| "js_neg NInf = PInf"
| "js_neg NaN = NaN"

fun js_add :: "jsnum \<Rightarrow> jsnum \<Rightarrow> jsnum" where
  "js_add NaN _ = NaN"
| "js_add _ NaN = NaN"
| "js_add (Fin x) (Fin y) = Fin (x + y)"
| "js_add PInf NInf = NaN"
| "js_add NInf PInf = NaN"
| "js_add PInf _ = PInf"
| "js_add NInf _ = NInf"
| "js_add (Fin x) PInf = PInf"
| "js_add (Fin x) NInf = NInf"

definition js_sub :: "jsnum \<Rightarrow> jsnum \<Rightarrow> jsnum" where
  "js_sub a b = js_add a (js_neg b)"

text \<open>Multiplication by a positive finite constant (\<open>x * 1000\<close>, \<open>x / 1000\<close>).\<close>

fun js_scale :: "real \<Rightarrow> jsnum \<Rightarrow> jsnum" where
  "js_scale k (Fin x) = Fin (k * x)"
| "js_scale k n = n"

fun js_floor :: "jsnum \<Rightarrow> jsnum" where
  "js_floor (Fin x) = Fin (of_int \<lfloor>x\<rfloor>)"
| "js_floor n = n"

fun js_ceil :: "jsnum \<Rightarrow> jsnum" where
  "js_ceil (Fin x) = Fin (of_int \<lceil>x\<rceil>)"
| "js_ceil n = n"

text \<open>The comparisons \<open>a < b\<close>, \<open>a <= b\<close> and \<open>a >= b\<close>: false as soon as one side is NaN.\<close>

fun js_lt :: "jsnum \<Rightarrow> jsnum \<Rightarrow> bool" where
  "js_lt NaN _ = False"
| "js_lt _ NaN = False"
| "js_lt (Fin x) (Fin y) = (x < y)"
| "js_lt PInf _ = False"
| "js_lt NInf NInf = False"
| "js_lt NInf _ = True"
| "js_lt (Fin x) PInf = True"
| "js_lt (Fin x) NInf = False"

fun js_le :: "jsnum \<Rightarrow> jsnum \<Rightarrow> bool" where
  "js_le NaN _ = False"
| "js_le _ NaN = False"
| "js_le a b = (a = b \<or> js_lt a b)"

definition js_ge :: "jsnum \<Rightarrow> jsnum \<Rightarrow> bool" where
  "js_ge a b = js_le b a"

fun isNaN :: "jsnum \<Rightarrow> bool" where
  "isNaN NaN = True"
| "isNaN _ = False"


text \<open>Truthiness: a number is falsy when it is zero or NaN, a string when it is empty,
  and \<open>undefined\<close>/\<open>null\<close> (\<open>None\<close>) always.\<close>

fun truthy_num :: "jsnum option \<Rightarrow> bool" where
  "truthy_num None = False"
| "truthy_num (Some (Fin x)) = (x \<noteq> 0)"
| "truthy_num (Some NaN) = False"
| "truthy_num (Some _) = True"

fun truthy :: "string option \<Rightarrow> bool" where
  "truthy None = False"
| "truthy (Some s) = (s \<noteq> [])"

text \<open>\<open>x ?? 0\<close> on an optional number.\<close>

fun or_zero :: "jsnum option \<Rightarrow> jsnum" where
  "or_zero None = Fin 0"
| "or_zero (Some n) = n"

text \<open>
  A value held by a plain object: the login options and the OAuth response are objects
  whose members are read by name. A member that is missing reads as \<open>undefined\<close>
  (\<open>None\<close>), as a member that holds \<open>undefined\<close> does.
\<close>

datatype jsval = JStr string | JNum jsnum | JBool bool | JNull

fun truthy_val :: "jsval option \<Rightarrow> bool" where
  "truthy_val None = False"
| "truthy_val (Some (JStr s)) = (s \<noteq> [])"
| "truthy_val (Some (JNum n)) = truthy_num (Some n)"
| "truthy_val (Some (JBool b)) = b"
| "truthy_val (Some JNull) = False"

text \<open>\<open>v ?? d\<close> replaces \<open>null\<close> and \<open>undefined\<close>.\<close>

fun nullish :: "jsval option \<Rightarrow> bool" where
  "nullish None = True"
| "nullish (Some JNull) = True"
| "nullish (Some _) = False"

text \<open>A member declared \<open>string | undefined\<close>, read as such.\<close>

fun str_of :: "jsval option \<Rightarrow> string option" where
  "str_of (Some (JStr s)) = Some s"
| "str_of _ = None"





subsection \<open>Types of the client\<close>

datatype KeycloakFlow = Standard | Implicit | Hybrid

datatype KeycloakResponseMode = Query | Fragment

type_synonym KeycloakRoles = "string list"

type_synonym KeycloakResourceAccess = "(string \<times> KeycloakRoles) list"

text \<open>The claims of a decoded token; the member \<open>exp\<close> is written \<open>exp_claim\<close>, clear of the
  exponential function.\<close>

record KeycloakTokenParsed =
  exp_claim :: "jsnum option"
  iat :: "jsnum option"
  nonce :: "string option"
  sub :: "string option"
  realm_access :: "KeycloakRoles option"
  resource_access :: "KeycloakResourceAccess option"

text \<open>What a method throws, and what a waiter's promise is rejected with.\<close>

datatype error =
    NotAuthenticated
  | InvalidMinValidity
  | InvalidTokenParsed
  | InvalidToken
  | NonceMismatch
  | AuthorizationError
  | NetworkError
  | TokenExchangeError error
  | TypeError

datatype 'a outcome = Returns 'a | Throws error

datatype rejection = MissingRefreshToken | RefreshFailed

text \<open>A \<open>Deferred<boolean>\<close> is known by a handle; settling it is an event.\<close>

type_synonym Deferred = nat

datatype event =
    TokenExpiredEv
  | AuthLogoutEv
  | LoginCalledEv
  | AuthSuccessEv
  | AuthErrorEv jsval
  | AuthRefreshSuccessEv
  | AuthRefreshErrorEv
  | ActionUpdateEv "jsval option"
  | ResolvedEv Deferred bool
  | RejectedEv Deferred rejection
  | RefreshRequestEv string "(string \<times> string) list"
  | ExchangeRequestEv string "(string \<times> jsval option) list"

text \<open>
  The fields of the class that the modelled methods read or write. \<open>clientId\<close> and the
  three endpoint URLs stand for \<open>this.clientId!\<close> and for \<open>this.endpoints!.token()\<close>,
  \<open>authorize()\<close> and \<open>register()\<close>; \<open>tokenTimeoutHandle\<close> holds the delay of the armed timer;
  a field \<open>onX\<close> says whether that handler is registered; \<open>events\<close> is the log of what the
  client did to the outside, oldest first.
\<close>

record KeycloakClient =
  authenticated :: "bool option"
  subject :: "string option"
  responseMode :: "KeycloakResponseMode option"
  responseType :: "string option"
  flow :: "KeycloakFlow option"
  realmAccess :: "KeycloakRoles option"
  resourceAccess :: "KeycloakResourceAccess option"
  token :: "string option"
  tokenParsed :: "KeycloakTokenParsed option"
  refreshToken :: "string option"
  refreshTokenParsed :: "KeycloakTokenParsed option"
  idToken :: "string option"
  idTokenParsed :: "KeycloakTokenParsed option"
  timeSkew :: "jsnum option"
  loginRequired :: bool
  clientId :: string
  tokenTimeoutHandle :: "jsnum option"
  tokenEndpoint :: string
  authorizeEndpoint :: string
  registerEndpoint :: string
  refreshQueue :: "Deferred list"
  useNonce :: bool
  pkceMethod :: "string option"
  onTokenExpired :: bool
  onAuthLogout :: bool
  onAuthSuccess :: bool
  onAuthError :: bool
  onAuthRefreshSuccess :: bool
  onAuthRefreshError :: bool
  onActionUpdate :: bool
  events :: "event list"

text \<open>\<open>this.onX && this.onX()\<close>: the handler runs when it is registered.\<close>

definition notify :: "bool \<Rightarrow> event \<Rightarrow> KeycloakClient \<Rightarrow> KeycloakClient" where
  "notify registered ev c = (if registered then c\<lparr>events := events c @ [ev]\<rparr> else c)"

text \<open>An effect that always happens (a network request, a settled promise).\<close>

definition emit :: "event \<Rightarrow> KeycloakClient \<Rightarrow> KeycloakClient" where
  "emit ev c = c\<lparr>events := events c @ [ev]\<rparr>"

text \<open>
  \<open>decodeToken\<close> (utils/keycloak) is an argument of the model: on a raw token it
  throws, or returns a falsy value (\<open>Returns None\<close>), or returns the claims.
\<close>

type_synonym decoder = "string \<Rightarrow> KeycloakTokenParsed option outcome"

subsection \<open>setToken and clearToken\<close>

text \<open>The refresh-token block of \<open>setToken\<close> (lines 867-873).\<close>

definition setRefreshToken ::
  "decoder \<Rightarrow> string option \<Rightarrow> KeycloakClient \<Rightarrow> unit outcome \<times> KeycloakClient" where
  "setRefreshToken decodeToken rt c =
     (if truthy rt then
        (let c1 = c\<lparr>refreshToken := rt\<rparr> in
         case decodeToken (the rt) of
           Throws e \<Rightarrow> (Throws e, c1)
         | Returns p \<Rightarrow> (Returns (), c1\<lparr>refreshTokenParsed := p\<rparr>))
      else (Returns (), c\<lparr>refreshToken := None, refreshTokenParsed := None\<rparr>))"

text \<open>The id-token block of \<open>setToken\<close> (lines 875-881).\<close>

definition setIdToken ::
  "decoder \<Rightarrow> string option \<Rightarrow> KeycloakClient \<Rightarrow> unit outcome \<times> KeycloakClient" where
  "setIdToken decodeToken it c =
     (if truthy it then
        (let c1 = c\<lparr>idToken := it\<rparr> in
         case decodeToken (the it) of
           Throws e \<Rightarrow> (Throws e, c1)
         | Returns p \<Rightarrow> (Returns (), c1\<lparr>idTokenParsed := p\<rparr>))
      else (Returns (), c\<lparr>idToken := None, idTokenParsed := None\<rparr>))"

text \<open>The expiry notification of \<open>setToken\<close> (lines 900-925), for the decoded access
  token \<open>p\<close>; \<open>now\<close> is the clock in milliseconds.\<close>

definition scheduleExpiry :: "real \<Rightarrow> KeycloakTokenParsed \<Rightarrow> KeycloakClient \<Rightarrow> KeycloakClient" where
  "scheduleExpiry now p c =
     (case timeSkew c of
        None \<Rightarrow> c
      | Some skew \<Rightarrow>
          if onTokenExpired c then
            (let expiresIn =
                   js_scale 1000 (js_add (js_sub (or_zero (exp_claim p)) (Fin (now / 1000))) skew)
             in if js_le expiresIn (Fin 0) then emit TokenExpiredEv c
                else c\<lparr>tokenTimeoutHandle := Some expiresIn\<rparr>)
          else c)"

text \<open>The access-token block of \<open>setToken\<close> (lines 883-934).\<close>

definition setAccessToken ::
  "decoder \<Rightarrow> real \<Rightarrow> string option \<Rightarrow> jsnum option \<Rightarrow> KeycloakClient
     \<Rightarrow> unit outcome \<times> KeycloakClient" where
  "setAccessToken decodeToken now tok timeLocal c =
     (if truthy tok then
        (let c1 = c\<lparr>token := tok\<rparr> in
         case decodeToken (the tok) of
           Throws e \<Rightarrow> (Throws e, c1)
         | Returns None \<Rightarrow> (Throws InvalidTokenParsed, c1\<lparr>tokenParsed := None\<rparr>)
         | Returns (Some p) \<Rightarrow>
             (let c2 = c1\<lparr>tokenParsed := Some p, authenticated := Some True,
                          subject := sub p, realmAccess := realm_access p,
                          resourceAccess := resource_access p\<rparr>;
                  c3 = (if truthy_num timeLocal then
                          c2\<lparr>timeSkew :=
                                Some (js_sub (js_floor (js_scale (1 / 1000) (the timeLocal)))
                                             (or_zero (iat p)))\<rparr>
                        else c2)
              in (Returns (), scheduleExpiry now p c3)))
      else (Returns (), c\<lparr>token := None, tokenParsed := None, subject := None,
                            realmAccess := None, resourceAccess := None,
                            authenticated := Some False\<rparr>))"

definition setToken ::
  "decoder \<Rightarrow> real \<Rightarrow> string option \<Rightarrow> string option \<Rightarrow> string option \<Rightarrow> jsnum option
     \<Rightarrow> KeycloakClient \<Rightarrow> unit outcome \<times> KeycloakClient" where
  "setToken decodeToken now tok rt it timeLocal c =
     (let c0 = c\<lparr>tokenTimeoutHandle := None\<rparr> in
      case setRefreshToken decodeToken rt c0 of
        (Throws e, c1) \<Rightarrow> (Throws e, c1)
      | (Returns _, c1) \<Rightarrow>
          (case setIdToken decodeToken it c1 of
             (Throws e, c2) \<Rightarrow> (Throws e, c2)
           | (Returns _, c2) \<Rightarrow> setAccessToken decodeToken now tok timeLocal c2))"

text \<open>\<open>clearToken\<close> (lines 555-566). \<open>this.login()\<close> hands over to the adapter; the call
  is recorded as an event.\<close>

definition clearToken :: "decoder \<Rightarrow> real \<Rightarrow> KeycloakClient \<Rightarrow> unit outcome \<times> KeycloakClient" where
  "clearToken decodeToken now c =
     (if truthy (token c) then
        (case setToken decodeToken now None None None None c of
           (Throws e, c1) \<Rightarrow> (Throws e, c1)
         | (Returns _, c1) \<Rightarrow>
             (let c2 = notify (onAuthLogout c1) AuthLogoutEv c1
              in (Returns (), if loginRequired c2 then emit LoginCalledEv c2 else c2)))
      else (Returns (), c))"

subsection \<open>isTokenExpired\<close>

text \<open>\<open>isTokenExpired\<close> (lines 411-437); \<open>now\<close> is the clock in milliseconds.\<close>

definition isTokenExpired :: "KeycloakClient \<Rightarrow> jsnum option \<Rightarrow> real \<Rightarrow> bool outcome" where
  "isTokenExpired c minValidity now =
     (if tokenParsed c = None \<or> (\<not> truthy (refreshToken c) \<and> flow c \<noteq> Some Implicit) then
        Throws NotAuthenticated
      else
        (case timeSkew c of
           None \<Rightarrow> Returns True
         | Some skew \<Rightarrow>
             (let expiresIn =
                    js_add (js_sub (or_zero (exp_claim (the (tokenParsed c))))
                                   (js_ceil (Fin (now / 1000)))) skew
              in if truthy_num minValidity then
                   (if isNaN (the minValidity) then Throws InvalidMinValidity
                    else Returns (js_lt (js_sub expiresIn (the minValidity)) (Fin 0)))
                 else Returns (js_lt expiresIn (Fin 0)))))"

subsection \<open>The refresh coordinator: updateToken and runUpdateToken\<close>

text \<open>The body the adapter's \<open>refreshTokens\<close> and \<open>fetchTokens\<close> promise resolves with.\<close>

record TokenResponse =
  error :: "string option"
  access_token :: "string option"
  refresh_token :: "string option"
  id_token :: "string option"

datatype network_result = NetworkThrows | NetworkReturns TokenResponse

text \<open>
  \<open>runUpdateToken\<close> is asynchronous: it runs up to the \<open>await\<close> of line 469 inside the
  call of \<open>updateToken\<close>, and the rest runs when the adapter's promise settles. The first
  part returns what the caller is left waiting for: \<open>AwaitingRefresh t\<close> when this call
  dispatched the request, \<open>t\<close> being its local \<open>timeLocal\<close>.
\<close>

datatype suspension = NotSuspended | AwaitingRefresh real

text \<open>Lines 443-451: \<open>now\<close> is the clock read by \<open>isTokenExpired\<close>.\<close>

definition shouldRefreshToken :: "KeycloakClient \<Rightarrow> jsnum \<Rightarrow> real \<Rightarrow> bool outcome" where
  "shouldRefreshToken c minValidity now =
     (if minValidity = Fin (- 1) then Returns True
      else if tokenParsed c = None then Returns True
      else isTokenExpired c (Some minValidity) now)"

text \<open>Lines 439-469, up to the \<open>await\<close>. A throw of \<open>isTokenExpired\<close> rejects the promise
  of \<open>runUpdateToken\<close>, which nobody reads: the waiter stays pending. The method is
  private and \<open>updateToken\<close>, its only caller, has checked that a refresh token is there.\<close>

definition runUpdateToken ::
  "KeycloakClient \<Rightarrow> jsnum \<Rightarrow> Deferred \<Rightarrow> real \<Rightarrow> real \<Rightarrow> KeycloakClient \<times> suspension" where
  "runUpdateToken c minValidity deffered now timeLocal =
     (case shouldRefreshToken c minValidity now of
        Throws e \<Rightarrow> (c, NotSuspended)
      | Returns False \<Rightarrow> (emit (ResolvedEv deffered False) c, NotSuspended)
      | Returns True \<Rightarrow>
          (let params = AList.update ''refresh_token'' (the (refreshToken c))
                          (AList.update ''grant_type'' ''refresh_token''
                            (AList.update ''client_id'' (clientId c) []));
               c1 = c\<lparr>refreshQueue := refreshQueue c @ [deffered]\<rparr>
           in if length (refreshQueue c1) = 1 then
                (emit (RefreshRequestEv (tokenEndpoint c1) params) c1, AwaitingRefresh timeLocal)
              else (c1, NotSuspended)))"

text \<open>\<open>updateToken\<close> (lines 536-547); \<open>deffered\<close> is the handle of the new \<open>Deferred\<close>.\<close>

definition updateToken ::
  "KeycloakClient \<Rightarrow> jsnum option \<Rightarrow> Deferred \<Rightarrow> real \<Rightarrow> real \<Rightarrow> KeycloakClient \<times> suspension" where
  "updateToken c minValidity deffered now timeLocal =
     (if \<not> truthy (refreshToken c) then (emit (RejectedEv deffered MissingRefreshToken) c, NotSuspended)
      else runUpdateToken c (case minValidity of None \<Rightarrow> Fin 5 | Some m \<Rightarrow> m) deffered now timeLocal)"

text \<open>The two loops over \<open>this.refreshQueue.pop()\<close> (lines 492-498 and 506-512).\<close>

function resolveQueue :: "KeycloakClient \<Rightarrow> KeycloakClient" where
  "resolveQueue c =
     (if refreshQueue c = [] then c
      else resolveQueue (emit (ResolvedEv (last (refreshQueue c)) True)
                           (c\<lparr>refreshQueue := butlast (refreshQueue c)\<rparr>)))"
  by pat_completeness auto
termination
  by (relation "measure (\<lambda>c. length (refreshQueue c))") (auto simp: emit_def)

function rejectQueue :: "KeycloakClient \<Rightarrow> KeycloakClient" where
  "rejectQueue c =
     (if refreshQueue c = [] then c
      else rejectQueue (emit (RejectedEv (last (refreshQueue c)) RefreshFailed)
                          (c\<lparr>refreshQueue := butlast (refreshQueue c)\<rparr>)))"
  by pat_completeness auto
termination
  by (relation "measure (\<lambda>c. length (refreshQueue c))") (auto simp: emit_def)

declare resolveQueue.simps [simp del] rejectQueue.simps [simp del]

text \<open>The \<open>catch\<close> block (lines 500-513).\<close>

definition refreshFailed :: "KeycloakClient \<Rightarrow> KeycloakClient" where
  "refreshFailed c = rejectQueue (notify (onAuthRefreshError c) AuthRefreshErrorEv c)"

text \<open>
  Lines 469-513, from the \<open>await\<close> on: \<open>res\<close> is how the adapter's promise settled,
  \<open>timeLocal\<close> the dispatcher's local, \<open>now\<close> the clock of line 480 and \<open>nowS\<close> the clock
  read inside \<open>setToken\<close>. Everything thrown inside \<open>try\<close> ends in the \<open>catch\<close> block.
\<close>

definition refreshSettled ::
  "decoder \<Rightarrow> KeycloakClient \<Rightarrow> real \<Rightarrow> network_result \<Rightarrow> real \<Rightarrow> real \<Rightarrow> KeycloakClient" where
  "refreshSettled decodeToken c timeLocal res now nowS =
     (case res of
        NetworkThrows \<Rightarrow> refreshFailed c
      | NetworkReturns tokenResponse \<Rightarrow>
          if truthy (error tokenResponse) then
            refreshFailed (snd (clearToken decodeToken nowS c))
          else
            (case setToken decodeToken nowS (access_token tokenResponse)
                    (refresh_token tokenResponse) (id_token tokenResponse)
                    (Some (Fin ((timeLocal + now) / 2))) c of
               (Throws e, c1) \<Rightarrow> refreshFailed c1
             | (Returns _, c1) \<Rightarrow>
                 resolveQueue (notify (onAuthRefreshSuccess c1) AuthRefreshSuccessEv c1)))"

text \<open>A batch of \<open>updateToken\<close> calls made one after the other, each with its minimum
  validity, its new \<open>Deferred\<close> and its two clock readings.\<close>

fun updateTokens ::
  "KeycloakClient \<Rightarrow> (jsnum option \<times> Deferred \<times> real \<times> real) list \<Rightarrow> KeycloakClient" where
  "updateTokens c [] = c"
| "updateTokens c ((minValidity, deffered, now, timeLocal) # calls) =
     updateTokens (fst (updateToken c minValidity deffered now timeLocal)) calls"

fun isRefreshRequest :: "event \<Rightarrow> bool" where
  "isRefreshRequest (RefreshRequestEv url params) = True"
| "isRefreshRequest _ = False"

fun isSettlement :: "event \<Rightarrow> bool" where
  "isSettlement (ResolvedEv d b) = True"
| "isSettlement (RejectedEv d r) = True"
| "isSettlement _ = False"

text \<open>The number of refresh requests handed to the adapter so far.\<close>

definition refreshRequests :: "KeycloakClient \<Rightarrow> nat" where
  "refreshRequests c = length (filter isRefreshRequest (events c))"

text \<open>The settlements of waiters so far, in the order they were made.\<close>

definition settlements :: "KeycloakClient \<Rightarrow> event list" where
  "settlements c = filter isSettlement (events c)"

text \<open>Whether the continuation of the dispatcher takes the success branch.\<close>

definition refreshSucceeds ::
  "decoder \<Rightarrow> KeycloakClient \<Rightarrow> real \<Rightarrow> network_result \<Rightarrow> real \<Rightarrow> real \<Rightarrow> bool" where
  "refreshSucceeds decodeToken c timeLocal res now nowS =
     (case res of
        NetworkThrows \<Rightarrow> False
      | NetworkReturns tokenResponse \<Rightarrow>
          \<not> truthy (error tokenResponse) \<and>
          fst (setToken decodeToken nowS (access_token tokenResponse)
                 (refresh_token tokenResponse) (id_token tokenResponse)
                 (Some (Fin ((timeLocal + now) / 2))) c) = Returns ())"

text \<open>A step from \<open>c\<close> to \<open>c'\<close> that leaves the waiters and the refresh requests alone.\<close>

definition quiet :: "KeycloakClient \<Rightarrow> KeycloakClient \<Rightarrow> bool" where
  "quiet c c' \<longleftrightarrow>
     refreshQueue c' = refreshQueue c \<and>
     filter isSettlement (events c') = filter isSettlement (events c) \<and>
     filter isRefreshRequest (events c') = filter isRefreshRequest (events c) \<and>
     onAuthRefreshError c' = onAuthRefreshError c \<and>
     onAuthRefreshSuccess c' = onAuthRefreshSuccess c"

subsection \<open>Callback processing: processCallback and authSuccess\<close>

type_synonym OAuthResponse = "string \<rightharpoonup> jsval"

text \<open>
  \<open>authSuccess\<close> (lines 739-770): \<open>timeLocal\<close> is the caller's clock reading, \<open>now\<close> the one
  of line 744 and \<open>nowS\<close> the one inside \<open>setToken\<close>.
\<close>

definition nonceDiffers :: "KeycloakTokenParsed option \<Rightarrow> jsval option \<Rightarrow> bool" where
  "nonceDiffers parsed storedNonce =
     (case parsed of
        None \<Rightarrow> False
      | Some p \<Rightarrow> map_option JStr (KeycloakTokenParsed.nonce p) \<noteq> storedNonce)"

definition authSuccess ::
  "decoder \<Rightarrow> KeycloakClient \<Rightarrow> OAuthResponse \<Rightarrow> real \<Rightarrow> real \<Rightarrow> real \<Rightarrow> bool
     \<Rightarrow> unit outcome \<times> KeycloakClient" where
  "authSuccess decodeToken c oauthObj timeLocal now nowS fulfillPromise =
     (case setToken decodeToken nowS (str_of (oauthObj ''access_token''))
             (str_of (oauthObj ''refresh_token'')) (str_of (oauthObj ''id_token''))
             (Some (Fin ((timeLocal + now) / 2))) c of
        (Throws e, c1) \<Rightarrow> (Throws e, c1)
      | (Returns _, c1) \<Rightarrow>
          if useNonce c1 \<and>
             (nonceDiffers (tokenParsed c1) (oauthObj ''storedNonce'') \<or>
              nonceDiffers (refreshTokenParsed c1) (oauthObj ''storedNonce'') \<or>
              nonceDiffers (idTokenParsed c1) (oauthObj ''storedNonce''))
          then
            (case clearToken decodeToken nowS c1 of
               (Throws e, c2) \<Rightarrow> (Throws e, c2)
             | (Returns _, c2) \<Rightarrow> (Throws NonceMismatch, c2))
          else (Returns (), if fulfillPromise then notify (onAuthSuccess c1) AuthSuccessEv c1 else c1))"

text \<open>\<open>x || undefined\<close> on a string of the token response.\<close>

definition or_undefined :: "string option \<Rightarrow> jsval option" where
  "or_undefined x = (if truthy x then map_option JStr x else None)"

text \<open>The parameters of the code exchange (lines 698-706).\<close>

definition exchangeParams :: "KeycloakClient \<Rightarrow> OAuthResponse \<Rightarrow> (string \<times> jsval option) list" where
  "exchangeParams c oauth =
     (let params = AList.update ''redirect_uri'' (oauth ''redirectUri'')
                     (AList.update ''client_id'' (Some (JStr (clientId c)))
                       (AList.update ''grant_type'' (Some (JStr ''authorization_code''))
                         (AList.update ''code'' (oauth ''code'') [])))
      in if truthy_val (oauth ''pkceCodeVerifier'') then
           AList.update ''code_verifier'' (oauth ''pkceCodeVerifier'') params
         else params)"

text \<open>
  \<open>processCallback\<close> (lines 670-737): \<open>timeLocal\<close> is the clock of line 671 and \<open>fetch\<close> is
  how the adapter's \<open>fetchTokens\<close> promise settles, should the exchange be dispatched.
\<close>

definition processCallback ::
  "decoder \<Rightarrow> KeycloakClient \<Rightarrow> OAuthResponse \<Rightarrow> real \<Rightarrow> network_result \<Rightarrow> real \<Rightarrow> real
     \<Rightarrow> unit outcome \<times> KeycloakClient" where
  "processCallback decodeToken c oauth timeLocal fetch now nowS =
     (let c1 = (if truthy_val (oauth ''kc_action_status'') then
                  notify (onActionUpdate c) (ActionUpdateEv (oauth ''kc_action_status'')) c
                else c)
      in if truthy_val (oauth ''error'') then
           (if oauth ''prompt'' \<noteq> Some (JStr ''none'') then
              (Throws AuthorizationError,
               notify (onAuthError c1)
                 (AuthErrorEv (if nullish (oauth ''error_description'') then JStr ''auth error''
                               else the (oauth ''error_description''))) c1)
            else (Returns (), c1))
         else if flow c1 \<noteq> Some Standard \<and>
                 (truthy_val (oauth ''access_token'') \<or> truthy_val (oauth ''id_token'')) then
           authSuccess decodeToken c1 oauth timeLocal now nowS True
         else if flow c1 \<noteq> Some Implicit \<and> truthy_val (oauth ''code'') then
           (let c2 = emit (ExchangeRequestEv (tokenEndpoint c1) (exchangeParams c1 oauth)) c1;
                failed = JStr ''Failed to refresh token during callback processing''
            in case fetch of
                 NetworkThrows \<Rightarrow>
                   (Throws (TokenExchangeError NetworkError),
                    notify (onAuthError c2) (AuthErrorEv failed) c2)
               | NetworkReturns tokenResponse \<Rightarrow>
                   (case authSuccess decodeToken c2
                           (oauth(''access_token'' := or_undefined (access_token tokenResponse),
                                  ''refresh_token'' := or_undefined (refresh_token tokenResponse),
                                  ''id_token'' := or_undefined (id_token tokenResponse)))
                           timeLocal now nowS (flow c2 = Some Standard) of
                      (Throws e, c3) \<Rightarrow>
                        (Throws (TokenExchangeError e),
                         notify (onAuthError c3) (AuthErrorEv failed) c3)
                    | (Returns _, c3) \<Rightarrow> (Returns (), c3)))
         else (Returns (), c1))"

text \<open>The tests that lead \<open>processCallback\<close> to the code exchange: no error, not the
  fast path of line 693, and the test of line 697.\<close>

definition reachesExchange :: "KeycloakClient \<Rightarrow> OAuthResponse \<Rightarrow> bool" where
  "reachesExchange c oauth \<longleftrightarrow>
     \<not> truthy_val (oauth ''error'') \<and>
     \<not> (flow c \<noteq> Some Standard \<and>
        (truthy_val (oauth ''access_token'') \<or> truthy_val (oauth ''id_token''))) \<and>
     flow c \<noteq> Some Implicit \<and> truthy_val (oauth ''code'')"

text \<open>The token state of the session.\<close>

definition tokenState ::
  "KeycloakClient \<Rightarrow>
     (string option \<times> KeycloakTokenParsed option) \<times> (string option \<times> KeycloakTokenParsed option)
     \<times> (string option \<times> KeycloakTokenParsed option)
     \<times> bool option \<times> string option \<times> KeycloakRoles option \<times> KeycloakResourceAccess option
     \<times> jsnum option" where
  "tokenState c =
     ((token c, tokenParsed c), (refreshToken c, refreshTokenParsed c),
      (idToken c, idTokenParsed c),
      authenticated c, subject c, realmAccess c, resourceAccess c, timeSkew c)"

subsection \<open>Callback parsing: parseCallbackUrl and parseCallback\<close>






record CallbackState =
  state :: string
  nonce :: string
  pkceCodeVerifier :: "string option"
  prompt :: "string option"
  redirectUri :: string


subsection \<open>Login URL construction: createLoginUrl\<close>















subsection \<open>Example values\<close>

text \<open>Claims issued at second 1000 that expire at second 2000, carrying the nonce \<open>n\<close>.\<close>

definition exampleClaims :: "string \<Rightarrow> KeycloakTokenParsed" where
  "exampleClaims n =
     \<lparr>exp_claim = Some (Fin 2000), iat = Some (Fin 1000), nonce = Some n, sub = Some ''alice'',
      realm_access = None, resource_access = None\<rparr>"

text \<open>A client as \<open>init\<close> leaves it for the standard flow, nonce checking switched on
  and every handler but \<open>onTokenExpired\<close> registered.\<close>

definition exampleClient :: KeycloakClient where
  "exampleClient =
     \<lparr>authenticated = Some False, subject = None, responseMode = Some Fragment,
      responseType = Some ''code'', flow = Some Standard, realmAccess = None,
      resourceAccess = None, token = None, tokenParsed = None, refreshToken = None,
      refreshTokenParsed = None, idToken = None, idTokenParsed = None, timeSkew = None,
      loginRequired = False, clientId = ''app'', tokenTimeoutHandle = None,
      tokenEndpoint = ''https://kc/token'', authorizeEndpoint = ''https://kc/auth'',
      registerEndpoint = ''https://kc/registrations'', refreshQueue = [], useNonce = True,
      pkceMethod = None, onTokenExpired = False, onAuthLogout = True, onAuthSuccess = True,
      onAuthError = True, onAuthRefreshSuccess = True, onAuthRefreshError = True,
      onActionUpdate = True, events = []\<rparr>"

text \<open>A decoder that knows four tokens: \<open>A\<close> and \<open>R\<close> decode to claims with the nonce
  \<open>N1\<close>, \<open>I\<close> to claims with the nonce \<open>N2\<close>, and \<open>opaque\<close> decodes to nothing; anything
  else makes it throw.\<close>

definition exampleDecoder :: decoder where
  "exampleDecoder raw =
     (if raw = ''A'' \<or> raw = ''R'' then Returns (Some (exampleClaims ''N1''))
      else if raw = ''I'' then Returns (Some (exampleClaims ''N2''))
      else if raw = ''opaque'' then Returns None
      else Throws InvalidToken)"

text \<open>The example client logged in at second 1000 with the tokens \<open>A\<close> and \<open>R\<close>.\<close>

definition loggedInClient :: KeycloakClient where
  "loggedInClient =
     exampleClient\<lparr>authenticated := Some True, subject := Some ''alice'', token := Some ''A'',
       tokenParsed := Some (exampleClaims ''N1''), refreshToken := Some ''R'',
       refreshTokenParsed := Some (exampleClaims ''N1''), timeSkew := Some (Fin 0)\<rparr>"

text \<open>Three calls of \<open>updateToken\<close>: a forced refresh, a call made one second before the
  token expires and a call made while the token is still good for 500 seconds; and a
  token response without an error.\<close>

definition exampleCalls :: "(jsnum option \<times> Deferred \<times> real \<times> real) list" where
  "exampleCalls = [(Some (Fin (- 1)), 1, 1500000, 1500000), (None, 2, 1999000, 1999000),
                   (None, 3, 1500000, 1500000)]"

definition exampleResponse :: TokenResponse where
  "exampleResponse = \<lparr>error = None, access_token = Some ''A'', refresh_token = Some ''R'',
                       id_token = None\<rparr>"

definition errorResponse :: TokenResponse where
  "errorResponse = \<lparr>error = Some ''invalid_grant'', access_token = None, refresh_token = None,
                     id_token = None\<rparr>"

text \<open>The example client set up for the hybrid flow, a callback that carries only an id
  token (whose nonce is \<open>N2\<close>) for a request stored with the nonce \<open>N1\<close>, and a callback of
  the standard flow as \<open>parseCallback\<close> returns it.\<close>

definition hybridClient :: KeycloakClient where
  "hybridClient = exampleClient\<lparr>flow := Some Hybrid, responseType := Some ''code id_token token''\<rparr>"

definition idTokenOnly :: OAuthResponse where
  "idTokenOnly = [''id_token'' \<mapsto> JStr ''I'', ''state'' \<mapsto> JStr ''S1'',
                  ''storedNonce'' \<mapsto> JStr ''N1'']"

definition codeCallback :: OAuthResponse where
  "codeCallback = [''code'' \<mapsto> JStr ''abc'', ''state'' \<mapsto> JStr ''S1'', ''valid'' \<mapsto> JBool True,
                   ''redirectUri'' \<mapsto> JStr ''https://app/callback'',
                   ''storedNonce'' \<mapsto> JStr ''N1'']"







section \<open>Properties\<close>

subsection \<open>The token slots after setToken\<close>

lemma truthy_iff: "truthy x \<longleftrightarrow> (\<exists>s. x = Some s \<and> s \<noteq> [])"
  by (cases x) auto

lemma setRefreshToken_slots:
  "setRefreshToken d rt c = (Returns u, c') \<Longrightarrow>
     refreshToken c' = (if truthy rt then rt else None) \<and>
     refreshTokenParsed c' = (if truthy rt then (case d (the rt) of Returns p \<Rightarrow> p) else None) \<and>
     token c' = token c \<and> tokenParsed c' = tokenParsed c \<and>
     idToken c' = idToken c \<and> idTokenParsed c' = idTokenParsed c"
  by (auto simp: setRefreshToken_def Let_def truthy_iff split: if_splits outcome.splits)

lemma setIdToken_slots:
  "setIdToken d it c = (Returns u, c') \<Longrightarrow>
     idToken c' = (if truthy it then it else None) \<and>
     idTokenParsed c' = (if truthy it then (case d (the it) of Returns p \<Rightarrow> p) else None) \<and>
     token c' = token c \<and> tokenParsed c' = tokenParsed c \<and>
     refreshToken c' = refreshToken c \<and> refreshTokenParsed c' = refreshTokenParsed c"
  by (auto simp: setIdToken_def Let_def truthy_iff split: if_splits outcome.splits)

lemma scheduleExpiry_slots:
  "token (scheduleExpiry now p c) = token c \<and>
   tokenParsed (scheduleExpiry now p c) = tokenParsed c \<and>
   refreshToken (scheduleExpiry now p c) = refreshToken c \<and>
   refreshTokenParsed (scheduleExpiry now p c) = refreshTokenParsed c \<and>
   idToken (scheduleExpiry now p c) = idToken c \<and>
   idTokenParsed (scheduleExpiry now p c) = idTokenParsed c"
  by (simp add: scheduleExpiry_def emit_def Let_def split: option.splits)

lemma setAccessToken_slots:
  "setAccessToken d now tok tloc c = (Returns u, c') \<Longrightarrow>
     token c' = (if truthy tok then tok else None) \<and>
     (tokenParsed c' \<noteq> None \<longleftrightarrow> token c' \<noteq> None) \<and>
     idToken c' = idToken c \<and> idTokenParsed c' = idTokenParsed c \<and>
     refreshToken c' = refreshToken c \<and> refreshTokenParsed c' = refreshTokenParsed c"
  by (auto simp: setAccessToken_def Let_def scheduleExpiry_slots truthy_iff
           split: if_splits outcome.splits option.splits)

text \<open>
  Claim C7, as the code has it. After a call of \<open>setToken\<close> that returns normally, the
  access slot holds parsed claims if and only if it holds a raw token. The refresh and the
  id slot hold a raw token exactly when a non-empty one was passed, and their parsed claims
  are what the decoder returned for it: claims are there only if the raw token is, and a
  raw token for which the decoder returns no claims is kept without claims.
\<close>

theorem setToken_pairing:
  assumes "setToken decodeToken now tok rt it timeLocal c = (Returns u, c')"
  shows "(tokenParsed c' \<noteq> None \<longleftrightarrow> token c' \<noteq> None) \<and>
         (refreshTokenParsed c' \<noteq> None \<longrightarrow> refreshToken c' \<noteq> None) \<and>
         (idTokenParsed c' \<noteq> None \<longrightarrow> idToken c' \<noteq> None) \<and>
         token c' = (if truthy tok then tok else None) \<and>
         refreshToken c' = (if truthy rt then rt else None) \<and>
         idToken c' = (if truthy it then it else None) \<and>
         (truthy rt \<longrightarrow> decodeToken (the rt) = Returns (refreshTokenParsed c')) \<and>
         (truthy it \<longrightarrow> decodeToken (the it) = Returns (idTokenParsed c'))"
proof -
  from assms obtain c1 c2 u1 u2 where
    r: "setRefreshToken decodeToken rt (c\<lparr>tokenTimeoutHandle := None\<rparr>) = (Returns u1, c1)" and
    i: "setIdToken decodeToken it c1 = (Returns u2, c2)" and
    a: "setAccessToken decodeToken now tok timeLocal c2 = (Returns u, c')"
    by (auto simp: setToken_def Let_def split: prod.splits outcome.splits)
  have dr: "truthy rt \<Longrightarrow> \<exists>p. decodeToken (the rt) = Returns p"
    using r by (auto simp: setRefreshToken_def Let_def split: outcome.splits)
  have di: "truthy it \<Longrightarrow> \<exists>p. decodeToken (the it) = Returns p"
    using i by (auto simp: setIdToken_def Let_def split: outcome.splits)
  from setRefreshToken_slots[OF r] setIdToken_slots[OF i] setAccessToken_slots[OF a] dr di
  show ?thesis by (auto simp: truthy_iff split: if_splits)
qed

theorem setToken_pairing_witness:
  "fst (setToken exampleDecoder 0 (Some ''A'') None (Some ''I'') None exampleClient) = Returns () \<and>
   tokenParsed (snd (setToken exampleDecoder 0 (Some ''A'') None (Some ''I'') None exampleClient))
     \<noteq> None \<and>
   token (snd (setToken exampleDecoder 0 (Some ''A'') None (Some ''I'') None exampleClient))
     = Some ''A'' \<and>
   refreshToken (snd (setToken exampleDecoder 0 (Some ''A'') None (Some ''I'') None exampleClient))
     = None \<and>
   idToken (snd (setToken exampleDecoder 0 (Some ''A'') None (Some ''I'') None exampleClient))
     = Some ''I''"
proof -
  have f: "fst (setToken exampleDecoder 0 (Some ''A'') None (Some ''I'') None exampleClient)
             = Returns ()"
    by (simp add: setToken_def setRefreshToken_def setIdToken_def setAccessToken_def
          scheduleExpiry_def exampleDecoder_def exampleClient_def Let_def)
  then have e: "setToken exampleDecoder 0 (Some ''A'') None (Some ''I'') None exampleClient =
     (Returns (), snd (setToken exampleDecoder 0 (Some ''A'') None (Some ''I'') None exampleClient))"
    by (metis prod.collapse)
  from setToken_pairing[OF e] f show ?thesis by simp
qed

text \<open>
  Against claim C7 as stated: the decoder returns no claims for the refresh token \<open>opaque\<close>;
  \<open>setToken\<close> returns normally and leaves the raw refresh token in place without parsed
  claims.
\<close>

theorem setToken_pairing_counterexample:
  "fst (setToken exampleDecoder 0 (Some ''A'') (Some ''opaque'') None None exampleClient)
     = Returns () \<and>
   refreshToken
     (snd (setToken exampleDecoder 0 (Some ''A'') (Some ''opaque'') None None exampleClient))
     = Some ''opaque'' \<and>
   refreshTokenParsed
     (snd (setToken exampleDecoder 0 (Some ''A'') (Some ''opaque'') None None exampleClient))
     = None"
  by (simp add: setToken_def setRefreshToken_def setIdToken_def setAccessToken_def
        scheduleExpiry_def exampleDecoder_def exampleClient_def Let_def)

subsection \<open>isTokenExpired\<close>

lemma js_sub_zero: "js_sub E (Fin 0) = E"
  by (cases E) (auto simp: js_sub_def)

lemma expired_shape:
  assumes "tokenParsed c \<noteq> None" "truthy (refreshToken c) \<or> flow c = Some Implicit"
    "timeSkew c = Some skew" "\<not> isNaN m"
  shows "isTokenExpired c (Some m) now =
         Returns (js_lt (js_sub (js_add (js_sub (or_zero (exp_claim (the (tokenParsed c))))
                    (js_ceil (Fin (now / 1000)))) skew) m) (Fin 0))"
proof -
  have z: "\<not> truthy_num (Some m) \<Longrightarrow> m = Fin 0" using assms(4) by (cases m) auto
  show ?thesis using assms z
    by (auto simp: isTokenExpired_def Let_def js_sub_zero)
qed

lemma sub_mono:
  assumes "js_lt (js_sub E m1) (Fin 0)" "js_ge m2 m1"
  shows "js_lt (js_sub E m2) (Fin 0)"
  using assms by (cases E; cases m1; cases m2) (auto simp: js_sub_def js_ge_def)




text \<open>
  Claim C9. For the same client (claims, time skew) and the same clock reading, if
  \<open>isTokenExpired\<close> returns true for \<open>m1\<close> and \<open>m2 >= m1\<close>, it returns true for \<open>m2\<close>.
\<close>

theorem isTokenExpired_monotone:
  assumes "isTokenExpired c (Some m1) now = Returns True" and "js_ge m2 m1"
  shows "isTokenExpired c (Some m2) now = Returns True"
proof -
  have n: "\<not> isNaN m1" "\<not> isNaN m2"
    using assms(2) by (cases m1; cases m2; simp add: js_ge_def)+
  have pre: "tokenParsed c \<noteq> None" "truthy (refreshToken c) \<or> flow c = Some Implicit"
    using assms(1) by (auto simp: isTokenExpired_def split: if_splits)
  show ?thesis
  proof (cases "timeSkew c")
    case None
    then show ?thesis using pre by (auto simp: isTokenExpired_def)
  next
    case (Some skew)
    from assms(1) expired_shape[OF pre Some n(1), of now]
    have "js_lt (js_sub (js_add (js_sub (or_zero (exp_claim (the (tokenParsed c))))
                    (js_ceil (Fin (now / 1000)))) skew) m1) (Fin 0)" by simp
    from sub_mono[OF this assms(2)] expired_shape[OF pre Some n(2), of now]
    show ?thesis by simp
  qed
qed

theorem isTokenExpired_monotone_witness:
  "isTokenExpired loggedInClient (Some (Fin 5)) 1996000 = Returns True \<and>
   js_ge (Fin 30) (Fin 5) \<and>
   isTokenExpired loggedInClient (Some (Fin 30)) 1996000 = Returns True"
proof -
  have a: "isTokenExpired loggedInClient (Some (Fin 5)) 1996000 = Returns True"
    by (simp add: isTokenExpired_def loggedInClient_def exampleClient_def exampleClaims_def
          js_sub_def Let_def)
  have b: "js_ge (Fin 30) (Fin 5)" by (simp add: js_ge_def)
  from isTokenExpired_monotone[OF a b] a b show ?thesis by simp
qed

subsection \<open>The refresh coordinator\<close>

lemma resolveQueue_eq:
  "resolveQueue c = c\<lparr>refreshQueue := [],
       events := events c @ map (\<lambda>d. ResolvedEv d True) (rev (refreshQueue c))\<rparr>"
proof (induction "refreshQueue c" arbitrary: c rule: rev_induct)
  case Nil
  then show ?case by (subst resolveQueue.simps) simp
next
  case (snoc x xs)
  let ?c = "emit (ResolvedEv x True) (c\<lparr>refreshQueue := xs\<rparr>)"
  have "xs = refreshQueue ?c" by (simp add: emit_def)
  from snoc(1)[OF this] snoc(2)[symmetric] show ?case
    by (subst resolveQueue.simps) (simp add: emit_def)
qed

lemma rejectQueue_eq:
  "rejectQueue c = c\<lparr>refreshQueue := [],
       events := events c @ map (\<lambda>d. RejectedEv d RefreshFailed) (rev (refreshQueue c))\<rparr>"
proof (induction "refreshQueue c" arbitrary: c rule: rev_induct)
  case Nil
  then show ?case by (subst rejectQueue.simps) simp
next
  case (snoc x xs)
  let ?c = "emit (RejectedEv x RefreshFailed) (c\<lparr>refreshQueue := xs\<rparr>)"
  have "xs = refreshQueue ?c" by (simp add: emit_def)
  from snoc(1)[OF this] snoc(2)[symmetric] show ?case
    by (subst rejectQueue.simps) (simp add: emit_def)
qed

lemma quiet_refl: "quiet c c" by (simp add: quiet_def)

lemma quiet_trans: "quiet a b \<Longrightarrow> quiet b c \<Longrightarrow> quiet a c" by (simp add: quiet_def)

lemma setRefreshToken_quiet: "quiet c (snd (setRefreshToken d rt c))"
  by (simp add: setRefreshToken_def quiet_def Let_def split: outcome.splits)

lemma setIdToken_quiet: "quiet c (snd (setIdToken d it c))"
  by (simp add: setIdToken_def quiet_def Let_def split: outcome.splits)

lemma scheduleExpiry_quiet: "quiet c (scheduleExpiry now p c)"
  by (simp add: scheduleExpiry_def quiet_def emit_def Let_def split: option.splits)

lemma setAccessToken_quiet: "quiet c (snd (setAccessToken d now tok tloc c))"
proof -
  have "\<And>p c1. quiet c c1 \<Longrightarrow> quiet c (scheduleExpiry now p c1)"
    using quiet_trans scheduleExpiry_quiet by blast
  then show ?thesis
    by (simp add: setAccessToken_def Let_def split: outcome.splits option.splits)
       (simp add: quiet_def)
qed

lemma setToken_quiet: "quiet c (snd (setToken d now tok rt it tloc c))"
proof -
  let ?c0 = "c\<lparr>tokenTimeoutHandle := None\<rparr>"
  have 0: "quiet c ?c0" by (simp add: quiet_def)
  obtain r1 c1 where 1: "setRefreshToken d rt ?c0 = (r1, c1)" by fastforce
  obtain r2 c2 where 2: "setIdToken d it c1 = (r2, c2)" by fastforce
  have q1: "quiet c c1" using setRefreshToken_quiet[of ?c0 d rt] 1 0 quiet_trans by fastforce
  have q2: "quiet c c2" using setIdToken_quiet[of c1 d it] 2 q1 quiet_trans by fastforce
  have q3: "quiet c (snd (setAccessToken d now tok tloc c2))"
    using setAccessToken_quiet[of c2 d now tok tloc] q2 quiet_trans by blast
  show ?thesis using 1 2 q1 q2 q3
    by (simp add: setToken_def Let_def split: outcome.splits)
qed

lemma clearToken_quiet: "quiet c (snd (clearToken d now c))"
proof -
  obtain r1 c1 where 1: "setToken d now None None None None c = (r1, c1)" by fastforce
  then have q: "quiet c c1" using setToken_quiet[of c d now None None None None] by simp
  then have "quiet c (notify (onAuthLogout c1) AuthLogoutEv c1)"
    by (simp add: quiet_def notify_def)
  moreover from this
  have "quiet c (emit LoginCalledEv (notify (onAuthLogout c1) AuthLogoutEv c1))"
    by (simp add: quiet_def emit_def)
  ultimately show ?thesis using 1 q
    by (simp add: clearToken_def Let_def quiet_refl split: outcome.splits)
qed

lemma refreshFailed_eq:
  "refreshFailed c = c\<lparr>refreshQueue := [],
      events := events c @ (if onAuthRefreshError c then [AuthRefreshErrorEv] else [])
                @ map (\<lambda>w. RejectedEv w RefreshFailed) (rev (refreshQueue c))\<rparr>"
  by (simp add: refreshFailed_def rejectQueue_eq notify_def)

lemma refreshSettled_settlements:
  "settlements (refreshSettled d c t0 res now nowS) =
     settlements c @ map (if refreshSucceeds d c t0 res now nowS then (\<lambda>w. ResolvedEv w True)
                          else (\<lambda>w. RejectedEv w RefreshFailed)) (rev (refreshQueue c)) \<and>
   refreshQueue (refreshSettled d c t0 res now nowS) = [] \<and>
   refreshRequests (refreshSettled d c t0 res now nowS) = refreshRequests c"
proof (cases res)
  case NetworkThrows
  then show ?thesis
    by (simp add: refreshSettled_def refreshSucceeds_def refreshFailed_eq settlements_def
          refreshRequests_def o_def)
next
  case (NetworkReturns r)
  show ?thesis
  proof (cases "truthy (error r)")
    case True
    from clearToken_quiet[of c d nowS] True NetworkReturns show ?thesis
      by (simp add: refreshSettled_def refreshSucceeds_def refreshFailed_eq settlements_def
            refreshRequests_def o_def quiet_def)
  next
    case False
    obtain r1 c1 where s: "setToken d nowS (access_token r) (refresh_token r) (id_token r)
        (Some (Fin ((t0 + now) / 2))) c = (r1, c1)" by fastforce
    from setToken_quiet[of c d nowS "access_token r" "refresh_token r" "id_token r"
        "Some (Fin ((t0 + now) / 2))"] s
    have q: "quiet c c1" by simp
    show ?thesis using False NetworkReturns s q
      by (cases r1)
         (simp_all add: refreshSettled_def refreshSucceeds_def refreshFailed_eq resolveQueue_eq
            notify_def settlements_def refreshRequests_def o_def quiet_def)
  qed
qed

lemma runUpdateToken_cases:
  "runUpdateToken c mv w now t0 = (c, NotSuspended) \<or>
   runUpdateToken c mv w now t0 = (emit (ResolvedEv w False) c, NotSuspended) \<or>
   (refreshQueue c = [] \<and>
    runUpdateToken c mv w now t0 =
      (emit (RefreshRequestEv (tokenEndpoint c)
               (AList.update ''refresh_token'' (the (refreshToken c))
                 (AList.update ''grant_type'' ''refresh_token''
                   (AList.update ''client_id'' (clientId c) []))))
         (c\<lparr>refreshQueue := [w]\<rparr>), AwaitingRefresh t0)) \<or>
   (refreshQueue c \<noteq> [] \<and>
    runUpdateToken c mv w now t0 = (c\<lparr>refreshQueue := refreshQueue c @ [w]\<rparr>, NotSuspended))"
  by (cases "refreshQueue c = []")
     (auto simp: runUpdateToken_def Let_def emit_def split: outcome.splits bool.splits)

lemma updateToken_busy:
  assumes "refreshQueue c \<noteq> []"
  shows "snd (updateToken c mv w now t0) = NotSuspended \<and>
         refreshRequests (fst (updateToken c mv w now t0)) = refreshRequests c \<and>
         refreshQueue (fst (updateToken c mv w now t0)) \<noteq> []"
  using assms runUpdateToken_cases[of c "case mv of None \<Rightarrow> Fin 5 | Some m \<Rightarrow> m" w now t0]
  by (auto simp: updateToken_def emit_def refreshRequests_def)

lemma updateToken_idle:
  assumes "refreshQueue c = []"
  shows "(snd (updateToken c mv w now t0) = NotSuspended \<and>
          refreshRequests (fst (updateToken c mv w now t0)) = refreshRequests c \<and>
          refreshQueue (fst (updateToken c mv w now t0)) = []) \<or>
         (snd (updateToken c mv w now t0) = AwaitingRefresh t0 \<and>
          refreshRequests (fst (updateToken c mv w now t0)) = refreshRequests c + 1 \<and>
          refreshQueue (fst (updateToken c mv w now t0)) = [w])"
  using assms runUpdateToken_cases[of c "case mv of None \<Rightarrow> Fin 5 | Some m \<Rightarrow> m" w now t0]
  by (auto simp: updateToken_def emit_def refreshRequests_def)

lemma updateToken_queue:
  "refreshQueue (fst (updateToken c mv w now t0)) = refreshQueue c \<or>
   refreshQueue (fst (updateToken c mv w now t0)) = refreshQueue c @ [w]"
  using runUpdateToken_cases[of c "case mv of None \<Rightarrow> Fin 5 | Some m \<Rightarrow> m" w now t0]
  by (auto simp: updateToken_def emit_def)

lemma updateTokens_busy:
  "refreshQueue c \<noteq> [] \<Longrightarrow>
     refreshRequests (updateTokens c calls) = refreshRequests c \<and>
     refreshQueue (updateTokens c calls) \<noteq> []"
proof (induction calls arbitrary: c)
  case Nil
  then show ?case by simp
next
  case (Cons call calls)
  obtain mv w now t0 where call: "call = (mv, w, now, t0)" by (cases call) auto
  from updateToken_busy[OF Cons.prems, of mv w now t0]
       Cons.IH[of "fst (updateToken c mv w now t0)"]
  show ?case by (simp add: call)
qed

lemma updateTokens_idle:
  "refreshQueue c = [] \<Longrightarrow>
     refreshRequests (updateTokens c calls) =
       refreshRequests c + (if refreshQueue (updateTokens c calls) = [] then 0 else 1)"
proof (induction calls arbitrary: c)
  case Nil
  then show ?case by simp
next
  case (Cons call calls)
  obtain mv w now t0 where call: "call = (mv, w, now, t0)" by (cases call) auto
  let ?c = "fst (updateToken c mv w now t0)"
  from updateToken_idle[OF Cons.prems, of mv w now t0]
  show ?case
  proof
    assume a: "snd (updateToken c mv w now t0) = NotSuspended \<and>
          refreshRequests ?c = refreshRequests c \<and> refreshQueue ?c = []"
    with Cons.IH[of ?c] show ?thesis by (simp add: call)
  next
    assume a: "snd (updateToken c mv w now t0) = AwaitingRefresh t0 \<and>
          refreshRequests ?c = refreshRequests c + 1 \<and> refreshQueue ?c = [w]"
    then have "refreshQueue ?c \<noteq> []" by simp
    from updateTokens_busy[OF this, of calls] a show ?thesis by (simp add: call)
  qed
qed

text \<open>
  Claim C1. Start from a client with no refresh in flight (an empty waiter queue) and let
  any batch of \<open>updateToken\<close> calls run before the adapter's promise settles. The batch hands
  exactly one refresh request to the adapter if a waiter was enqueued, and none otherwise.
  A call is left waiting at the network request exactly when it enqueued its waiter into an
  empty queue, and only such a call adds a request; every other call leaves the queue as
  it is or appends its waiter. When the promise settles no further
  request is made, the queue is emptied, and every queued waiter is settled the same way:
  all resolved with \<open>true\<close> when the refresh succeeded, all rejected otherwise.
\<close>

theorem single_flight_refresh:
  assumes "refreshQueue c = []"
  shows "refreshRequests (updateTokens c calls) =
           refreshRequests c + (if refreshQueue (updateTokens c calls) = [] then 0 else 1) \<and>
         (\<forall>c0 mv w now t0.
            (snd (updateToken c0 mv w now t0) \<noteq> NotSuspended) =
              (refreshQueue c0 = [] \<and> refreshQueue (fst (updateToken c0 mv w now t0)) = [w]) \<and>
            refreshRequests (fst (updateToken c0 mv w now t0)) =
              refreshRequests c0 + (if snd (updateToken c0 mv w now t0) = NotSuspended then 0 else 1) \<and>
            (refreshQueue (fst (updateToken c0 mv w now t0)) = refreshQueue c0 \<or>
             refreshQueue (fst (updateToken c0 mv w now t0)) = refreshQueue c0 @ [w])) \<and>
         refreshRequests (refreshSettled d (updateTokens c calls) t1 res now1 nowS) =
           refreshRequests (updateTokens c calls) \<and>
         refreshQueue (refreshSettled d (updateTokens c calls) t1 res now1 nowS) = [] \<and>
         settlements (refreshSettled d (updateTokens c calls) t1 res now1 nowS) =
           settlements (updateTokens c calls) @
           map (if refreshSucceeds d (updateTokens c calls) t1 res now1 nowS
                then (\<lambda>w. ResolvedEv w True) else (\<lambda>w. RejectedEv w RefreshFailed))
               (rev (refreshQueue (updateTokens c calls)))"
proof -
  have one: "\<And>c0 mv w now t0.
      (snd (updateToken c0 mv w now t0) \<noteq> NotSuspended) =
        (refreshQueue c0 = [] \<and> refreshQueue (fst (updateToken c0 mv w now t0)) = [w]) \<and>
      refreshRequests (fst (updateToken c0 mv w now t0)) =
        refreshRequests c0 + (if snd (updateToken c0 mv w now t0) = NotSuspended then 0 else 1) \<and>
      (refreshQueue (fst (updateToken c0 mv w now t0)) = refreshQueue c0 \<or>
       refreshQueue (fst (updateToken c0 mv w now t0)) = refreshQueue c0 @ [w])"
  proof -
    fix c0 mv w now t0
    have "(snd (updateToken c0 mv w now t0) \<noteq> NotSuspended) =
        (refreshQueue c0 = [] \<and> refreshQueue (fst (updateToken c0 mv w now t0)) = [w]) \<and>
      refreshRequests (fst (updateToken c0 mv w now t0)) =
        refreshRequests c0 + (if snd (updateToken c0 mv w now t0) = NotSuspended then 0 else 1)"
    proof (cases "refreshQueue c0 = []")
      case True
      from updateToken_idle[OF True, of mv w now t0] True show ?thesis by auto
    next
      case False
      from updateToken_busy[OF False, of mv w now t0] False show ?thesis by auto
    qed
    with updateToken_queue[of c0 mv w now t0]
    show "(snd (updateToken c0 mv w now t0) \<noteq> NotSuspended) =
        (refreshQueue c0 = [] \<and> refreshQueue (fst (updateToken c0 mv w now t0)) = [w]) \<and>
      refreshRequests (fst (updateToken c0 mv w now t0)) =
        refreshRequests c0 + (if snd (updateToken c0 mv w now t0) = NotSuspended then 0 else 1) \<and>
      (refreshQueue (fst (updateToken c0 mv w now t0)) = refreshQueue c0 \<or>
       refreshQueue (fst (updateToken c0 mv w now t0)) = refreshQueue c0 @ [w])"
      by blast
  qed
  from updateTokens_idle[OF assms, of calls] one
       refreshSettled_settlements[of d "updateTokens c calls" t1 res now1 nowS]
  show ?thesis by blast
qed

lemma setToken_null:
  "setToken d now None None None None c =
     (Returns (), c\<lparr>tokenTimeoutHandle := None, refreshToken := None, refreshTokenParsed := None,
        idToken := None, idTokenParsed := None, token := None, tokenParsed := None,
        subject := None, realmAccess := None, resourceAccess := None,
        authenticated := Some False\<rparr>)"
  by (simp add: setToken_def setRefreshToken_def setIdToken_def setAccessToken_def)

lemma clearToken_clears:
  assumes "truthy (token c)"
  shows "clearToken d now c =
     (Returns (), c\<lparr>tokenTimeoutHandle := None, refreshToken := None, refreshTokenParsed := None,
        idToken := None, idTokenParsed := None, token := None, tokenParsed := None,
        subject := None, realmAccess := None, resourceAccess := None,
        authenticated := Some False,
        events := events c @ (if onAuthLogout c then [AuthLogoutEv] else [])
                  @ (if loginRequired c then [LoginCalledEv] else [])\<rparr>)"
  using assms by (simp add: clearToken_def setToken_null notify_def emit_def)

text \<open>
  Claim C3, as the code has it. When the \<open>refreshTokens\<close> call itself throws, the token
  state is left as it was. When the response carries an error and an access token is
  held, the three token slots are emptied, \<open>authenticated\<close> becomes false and the logout
  handler runs. In both cases the refresh-error handler runs once (when registered) and
  then every queued waiter is rejected with \<open>RefreshFailed\<close>, which empties the queue.
\<close>

theorem refresh_failure_cleanup:
  assumes "c' = refreshSettled d c t0 res now nowS"
  shows "(res = NetworkThrows \<longrightarrow>
            tokenState c' = tokenState c \<and>
            events c' = events c @ (if onAuthRefreshError c then [AuthRefreshErrorEv] else [])
                        @ map (\<lambda>w. RejectedEv w RefreshFailed) (rev (refreshQueue c)) \<and>
            refreshQueue c' = []) \<and>
         (\<forall>r. res = NetworkReturns r \<and> truthy (error r) \<and> truthy (token c) \<longrightarrow>
            token c' = None \<and> tokenParsed c' = None \<and> refreshToken c' = None \<and>
            refreshTokenParsed c' = None \<and> idToken c' = None \<and> idTokenParsed c' = None \<and>
            authenticated c' = Some False \<and>
            events c' = events c @ (if onAuthLogout c then [AuthLogoutEv] else [])
                        @ (if loginRequired c then [LoginCalledEv] else [])
                        @ (if onAuthRefreshError c then [AuthRefreshErrorEv] else [])
                        @ map (\<lambda>w. RejectedEv w RefreshFailed) (rev (refreshQueue c)) \<and>
            refreshQueue c' = [])"
proof -
  have a: "res = NetworkThrows \<Longrightarrow> c' = refreshFailed c"
    using assms by (simp add: refreshSettled_def)
  have b: "\<And>r. res = NetworkReturns r \<Longrightarrow> truthy (error r) \<Longrightarrow> truthy (token c) \<Longrightarrow>
             c' = refreshFailed (snd (clearToken d nowS c))"
    using assms by (simp add: refreshSettled_def)
  show ?thesis
  proof (intro conjI impI allI)
    assume "res = NetworkThrows"
    from a[OF this] show "tokenState c' = tokenState c"
      and "events c' = events c @ (if onAuthRefreshError c then [AuthRefreshErrorEv] else [])
                        @ map (\<lambda>w. RejectedEv w RefreshFailed) (rev (refreshQueue c))"
      and "refreshQueue c' = []"
      by (simp_all add: refreshFailed_eq tokenState_def)
  next
    fix r assume "res = NetworkReturns r \<and> truthy (error r) \<and> truthy (token c)"
    then have e: "c' = refreshFailed (snd (clearToken d nowS c))" and t: "truthy (token c)"
      using b by auto
    show "token c' = None" "tokenParsed c' = None" "refreshToken c' = None"
      "refreshTokenParsed c' = None" "idToken c' = None" "idTokenParsed c' = None"
      "authenticated c' = Some False"
      "events c' = events c @ (if onAuthLogout c then [AuthLogoutEv] else [])
                        @ (if loginRequired c then [LoginCalledEv] else [])
                        @ (if onAuthRefreshError c then [AuthRefreshErrorEv] else [])
                        @ map (\<lambda>w. RejectedEv w RefreshFailed) (rev (refreshQueue c))"
      "refreshQueue c' = []"
      by (simp_all add: e clearToken_clears[OF t] refreshFailed_eq)
  qed
qed

lemma exampleCalls_run:
  "updateTokens loggedInClient exampleCalls =
     loggedInClient\<lparr>refreshQueue := [1, 2],
        events := [RefreshRequestEv ''https://kc/token''
                     [(''client_id'', ''app''), (''grant_type'', ''refresh_token''),
                      (''refresh_token'', ''R'')],
                   ResolvedEv 3 False]\<rparr>"
  by (simp add: exampleCalls_def updateToken_def runUpdateToken_def shouldRefreshToken_def
        isTokenExpired_def loggedInClient_def exampleClient_def exampleClaims_def emit_def
        js_sub_def Let_def)

theorem single_flight_refresh_witness:
  "refreshQueue loggedInClient = [] \<and> refreshRequests loggedInClient = 0 \<and>
   refreshRequests (updateTokens loggedInClient exampleCalls) = 1 \<and>
   refreshQueue (updateTokens loggedInClient exampleCalls) = [1, 2] \<and>
   refreshQueue (refreshSettled exampleDecoder (updateTokens loggedInClient exampleCalls)
                   1500000 (NetworkReturns exampleResponse) 1500200 1500200) = []"
proof -
  have q: "refreshQueue loggedInClient = []"
    by (simp add: loggedInClient_def exampleClient_def)
  from single_flight_refresh[OF q, of exampleCalls exampleDecoder 1500000
         "NetworkReturns exampleResponse" 1500200 1500200]
  show ?thesis using q unfolding exampleCalls_run
    by (simp add: refreshRequests_def loggedInClient_def exampleClient_def)
qed

theorem refresh_failure_cleanup_witness:
  "truthy (error errorResponse) \<and> truthy (token (updateTokens loggedInClient exampleCalls)) \<and>
   token (refreshSettled exampleDecoder (updateTokens loggedInClient exampleCalls) 1500000
            (NetworkReturns errorResponse) 1500200 1500200) = None \<and>
   refreshToken (refreshSettled exampleDecoder (updateTokens loggedInClient exampleCalls) 1500000
            (NetworkReturns errorResponse) 1500200 1500200) = None \<and>
   authenticated (refreshSettled exampleDecoder (updateTokens loggedInClient exampleCalls) 1500000
            (NetworkReturns errorResponse) 1500200 1500200) = Some False \<and>
   refreshQueue (refreshSettled exampleDecoder (updateTokens loggedInClient exampleCalls) 1500000
            NetworkThrows 1500200 1500200) = []"
proof -
  have t: "truthy (error errorResponse)"
    "truthy (token (updateTokens loggedInClient exampleCalls))"
    unfolding exampleCalls_run
    by (simp_all add: errorResponse_def loggedInClient_def exampleClient_def)
  from refresh_failure_cleanup[where d = exampleDecoder
         and c = "updateTokens loggedInClient exampleCalls" and ?t0.0 = 1500000
         and res = "NetworkReturns errorResponse" and now = 1500200 and nowS = 1500200, OF refl]
       refresh_failure_cleanup[where d = exampleDecoder
         and c = "updateTokens loggedInClient exampleCalls" and ?t0.0 = 1500000
         and res = NetworkThrows and now = 1500200 and nowS = 1500200, OF refl]
       t
  show ?thesis by simp
qed

text \<open>
  Against claim C3 as stated: the refresh request of the example run throws, and the
  client still holds its access token and is still authenticated.
\<close>

theorem refresh_failure_cleanup_counterexample:
  "token (refreshSettled exampleDecoder (updateTokens loggedInClient exampleCalls) 1500000
            NetworkThrows 1500200 1500200) = Some ''A'' \<and>
   authenticated (refreshSettled exampleDecoder (updateTokens loggedInClient exampleCalls)
            1500000 NetworkThrows 1500200 1500200) = Some True \<and>
   refreshQueue (refreshSettled exampleDecoder (updateTokens loggedInClient exampleCalls)
            1500000 NetworkThrows 1500200 1500200) = []"
  unfolding exampleCalls_run
  by (simp add: refreshSettled_def refreshFailed_eq loggedInClient_def exampleClient_def)

text \<open>
  Claim C4, as the code has it. When the refresh in flight completes, the queued waiters
  are settled in the reverse of the order in which they were enqueued (the waiter enqueued
  last is settled first): all resolved with \<open>true\<close> on success, all rejected with
  \<open>RefreshFailed\<close> on failure, and the queue is left empty.
\<close>

theorem waiters_settled_in_reverse_order:
  "settlements (refreshSettled d c t0 res now nowS) =
     settlements c @ map (if refreshSucceeds d c t0 res now nowS then (\<lambda>w. ResolvedEv w True)
                          else (\<lambda>w. RejectedEv w RefreshFailed)) (rev (refreshQueue c)) \<and>
   refreshQueue (refreshSettled d c t0 res now nowS) = []"
  using refreshSettled_settlements[of d c t0 res now nowS] by simp

text \<open>
  Against claim C4 as stated: in the example run the waiter 1 is enqueued before the
  waiter 2, and on completion the waiter 2 is resolved before the waiter 1.
\<close>

theorem waiters_fifo_counterexample:
  "refreshQueue (updateTokens loggedInClient exampleCalls) = [1, 2] \<and>
   settlements (refreshSettled exampleDecoder (updateTokens loggedInClient exampleCalls)
                  1500000 (NetworkReturns exampleResponse) 1500200 1500200) =
     [ResolvedEv 3 False, ResolvedEv 2 True, ResolvedEv 1 True]"
proof -
  have "refreshSucceeds exampleDecoder (updateTokens loggedInClient exampleCalls) 1500000
          (NetworkReturns exampleResponse) 1500200 1500200"
    unfolding exampleCalls_run
    by (simp add: refreshSucceeds_def exampleResponse_def setToken_def setRefreshToken_def
          setIdToken_def setAccessToken_def scheduleExpiry_def exampleDecoder_def
          loggedInClient_def exampleClient_def Let_def)
  with refreshSettled_settlements[of exampleDecoder "updateTokens loggedInClient exampleCalls"
         1500000 "NetworkReturns exampleResponse" 1500200 1500200]
  show ?thesis unfolding exampleCalls_run
    by (simp add: settlements_def loggedInClient_def exampleClient_def)
qed

subsection \<open>Callback processing\<close>

lemma exchangeParams_events: "exchangeParams (c\<lparr>events := e\<rparr>) oauth = exchangeParams c oauth"
  by (simp add: exchangeParams_def)

text \<open>
  When \<open>processCallback\<close> reaches the code exchange and the promise of the adapter's
  \<open>fetchTokens\<close> rejects, the call fails with \<open>TokenExchangeError\<close>, the auth-error handler
  (when registered) is notified after the request went out, and the token state is what
  it was before the call.
\<close>

lemma exchange_rejection_leaves_tokens:
  assumes "reachesExchange c oauth"
    and "processCallback d c oauth t0 NetworkThrows now nowS = (r, c')"
  shows "r = Throws (TokenExchangeError NetworkError) \<and>
         tokenState c' = tokenState c \<and>
         events c' = events c
           @ (if truthy_val (oauth ''kc_action_status'') \<and> onActionUpdate c
              then [ActionUpdateEv (oauth ''kc_action_status'')] else [])
           @ [ExchangeRequestEv (tokenEndpoint c) (exchangeParams c oauth)]
           @ (if onAuthError c
              then [AuthErrorEv (JStr ''Failed to refresh token during callback processing'')]
              else [])"
proof -
  have "processCallback d c oauth t0 NetworkThrows now nowS =
          (Throws (TokenExchangeError NetworkError),
           c\<lparr>events := events c
             @ (if truthy_val (oauth ''kc_action_status'') \<and> onActionUpdate c
                then [ActionUpdateEv (oauth ''kc_action_status'')] else [])
             @ [ExchangeRequestEv (tokenEndpoint c) (exchangeParams c oauth)]
             @ (if onAuthError c
                then [AuthErrorEv (JStr ''Failed to refresh token during callback processing'')]
                else [])\<rparr>)"
    using assms(1)
    by (auto simp: reachesExchange_def processCallback_def Let_def notify_def emit_def
          exchangeParams_events)
  with assms(2) show ?thesis by (auto simp: tokenState_def)
qed

lemma exchange_rejection_example:
  "reachesExchange loggedInClient codeCallback \<and>
   fst (processCallback exampleDecoder loggedInClient codeCallback 1500000 NetworkThrows
          1500100 1500100) = Throws (TokenExchangeError NetworkError) \<and>
   tokenState (snd (processCallback exampleDecoder loggedInClient codeCallback 1500000
                      NetworkThrows 1500100 1500100)) = tokenState loggedInClient \<and>
   token (snd (processCallback exampleDecoder loggedInClient codeCallback 1500000
                 NetworkThrows 1500100 1500100)) = Some ''A''"
proof -
  have a: "reachesExchange loggedInClient codeCallback"
    by (simp add: reachesExchange_def loggedInClient_def exampleClient_def codeCallback_def)
  from exchange_rejection_leaves_tokens[OF a surjective_pairing, of exampleDecoder 1500000 1500100 1500100] a
  show ?thesis by (simp add: tokenState_def) (simp add: loggedInClient_def)
qed

text \<open>
  Claim C5, evaluated. The logged-in client processes a callback with a code; the
  exchange is dispatched and the token endpoint answers with an error body.
  \<open>processCallback\<close> does not look at the \<open>error\<close> member: it commits the three missing
  tokens, so the session loses its tokens and \<open>authenticated\<close> becomes false, the call
  returns normally, and the success handler runs instead of the auth-error handler.
\<close>

theorem exchange_error_body_wipes_session:
  "reachesExchange loggedInClient codeCallback \<and>
   truthy (error errorResponse) \<and>
   token loggedInClient = Some ''A'' \<and> authenticated loggedInClient = Some True \<and>
   fst (processCallback exampleDecoder loggedInClient codeCallback 1500000
          (NetworkReturns errorResponse) 1500100 1500100) = Returns () \<and>
   token (snd (processCallback exampleDecoder loggedInClient codeCallback 1500000
                 (NetworkReturns errorResponse) 1500100 1500100)) = None \<and>
   refreshToken (snd (processCallback exampleDecoder loggedInClient codeCallback 1500000
                        (NetworkReturns errorResponse) 1500100 1500100)) = None \<and>
   authenticated (snd (processCallback exampleDecoder loggedInClient codeCallback 1500000
                         (NetworkReturns errorResponse) 1500100 1500100)) = Some False \<and>
   events (snd (processCallback exampleDecoder loggedInClient codeCallback 1500000
                  (NetworkReturns errorResponse) 1500100 1500100)) =
     [ExchangeRequestEv ''https://kc/token'' (exchangeParams loggedInClient codeCallback),
      AuthSuccessEv]"
  by (simp add: reachesExchange_def processCallback_def authSuccess_def setToken_def
        setRefreshToken_def setIdToken_def setAccessToken_def nonceDiffers_def or_undefined_def
        errorResponse_def loggedInClient_def exampleClient_def codeCallback_def notify_def
        emit_def exchangeParams_def Let_def)

text \<open>
  Claim C2, evaluated. The hybrid client receives a callback that carries an id token but
  no access token; the nonce of the id token differs from the stored one. \<open>authSuccess\<close>
  fails with \<open>NonceMismatch\<close>, and the raw id token and its claims are still there:
  \<open>clearToken\<close> does nothing when no access token is held.
\<close>

theorem nonce_mismatch_keeps_id_token:
  "fst (authSuccess exampleDecoder hybridClient idTokenOnly 1500000 1500100 1500100 True)
     = Throws NonceMismatch \<and>
   idToken (snd (authSuccess exampleDecoder hybridClient idTokenOnly 1500000 1500100 1500100 True))
     = Some ''I'' \<and>
   idTokenParsed
     (snd (authSuccess exampleDecoder hybridClient idTokenOnly 1500000 1500100 1500100 True))
     = Some (exampleClaims ''N2'') \<and>
   processCallback exampleDecoder hybridClient idTokenOnly 1500000 NetworkThrows 1500100 1500100
     = authSuccess exampleDecoder hybridClient idTokenOnly 1500000 1500100 1500100 True"
  by (simp add: processCallback_def authSuccess_def setToken_def setRefreshToken_def
        setIdToken_def setAccessToken_def clearToken_def nonceDiffers_def exampleDecoder_def
        hybridClient_def exampleClient_def idTokenOnly_def exampleClaims_def Let_def)

text \<open>With an access token held after \<open>setToken\<close>, the same mismatch clears every slot.\<close>

lemma nonce_mismatch_clears_with_access_token:
  assumes "setToken d nowS (str_of (oauth ''access_token'')) (str_of (oauth ''refresh_token''))
             (str_of (oauth ''id_token'')) (Some (Fin ((t0 + now) / 2))) c = (Returns (), c1)"
    and "truthy (token c1)"
    and "useNonce c1"
    and "nonceDiffers (tokenParsed c1) (oauth ''storedNonce'') \<or>
         nonceDiffers (refreshTokenParsed c1) (oauth ''storedNonce'') \<or>
         nonceDiffers (idTokenParsed c1) (oauth ''storedNonce'')"
  shows "fst (authSuccess d c oauth t0 now nowS fulfil) = Throws NonceMismatch \<and>
         tokenState (snd (authSuccess d c oauth t0 now nowS fulfil)) =
           ((None, None), (None, None), (None, None), Some False, None, None, None, timeSkew c1)"
  using assms
  by (auto simp: authSuccess_def clearToken_clears tokenState_def)

subsection \<open>Callback parsing\<close>







subsection \<open>Login URL construction\<close>











end
